theory Spec2Isabelle
  imports Main
begin

section \<open>Data model\<close>

text \<open>
  Positions and cursors as the source uses them: a \<^verbatim>\<open>Position\<close> is a pair of a
  zero-based line and character, a \<^verbatim>\<open>Range\<close> a pair of positions, a
  \<^verbatim>\<open>Cursor\<close> a pair \<^verbatim>\<open>(start, stop)\<close> of positions.
\<close>

record position =
  line :: nat
  character :: nat

record vrange =
  rstart :: position
  rend :: position

record cursor =
  start :: position
  stop :: position

definition new_Position :: "nat \<Rightarrow> nat \<Rightarrow> position" where
  "new_Position l c = \<lparr>line = l, character = c\<rparr>"

definition new_Range :: "position \<Rightarrow> position \<Rightarrow> vrange" where
  "new_Range s e = \<lparr>rstart = s, rend = e\<rparr>"

definition new_Cursor :: "position \<Rightarrow> position \<Rightarrow> cursor" where
  "new_Cursor s e = \<lparr>start = s, stop = e\<rparr>"

section \<open>DocumentContentChangeAction\<close>

text \<open>
  A \<^verbatim>\<open>vscode.TextDocumentContentChangeEvent\<close>: the replaced range, its offset and
  length in the document, and the inserted text. A text is a list of characters, one per
  UTF-16 code unit, so that \<^verbatim>\<open>text.length\<close> is \<^const>\<open>length\<close>. The fields
  \<^verbatim>\<open>range\<close> and \<^verbatim>\<open>text\<close> are named \<open>range_c\<close> and \<open>text_c\<close>.
\<close>

record contentChange =
  range_c :: vrange
  rangeOffset :: nat
  rangeLength :: nat
  text_c :: string

text \<open>
  \<^verbatim>\<open>String.prototype.slice\<close> with non-negative arguments: \<^verbatim>\<open>s.slice(0, n)\<close> keeps the
  first \<open>n\<close> units (all of \<open>s\<close> when \<open>n\<close> is beyond its end) and \<^verbatim>\<open>s.slice(n)\<close>
  drops them (the empty string when \<open>n\<close> is beyond the end).
\<close>

definition slice_to :: "string \<Rightarrow> nat \<Rightarrow> string" where
  "slice_to s n = take n s"

definition slice_from :: "string \<Rightarrow> nat \<Rightarrow> string" where
  "slice_from s n = drop n s"

text \<open>
  The local function \<^verbatim>\<open>merge\<close> of \<^verbatim>\<open>compressChanges\<close>; \<open>None\<close> is its
  \<^verbatim>\<open>undefined\<close>. In the second branch \<open>rangeOffset first \<le> rangeOffset second\<close>
  holds, so the subtraction on \<open>nat\<close> is the source's subtraction.
\<close>

definition merge :: "contentChange \<Rightarrow> contentChange \<Rightarrow> contentChange option" where
  "merge first second =
     (if rangeOffset first + length (text_c first) = rangeOffset second
         \<or> rangeLength second = 0
      then Some \<lparr>range_c = range_c first, rangeOffset = rangeOffset first,
                  rangeLength = rangeLength first,
                  text_c = text_c first @ text_c second\<rparr>
      else if rangeOffset first \<le> rangeOffset second
              \<and> length (text_c first) \<ge> rangeLength second
      then (let start_i = rangeOffset second - rangeOffset first;
                end_i = start_i + rangeLength second;
                txt = slice_to (text_c first) start_i @ text_c second
                        @ slice_from (text_c first) end_i
            in Some \<lparr>range_c = range_c first, rangeOffset = rangeOffset first,
                       rangeLength = rangeLength first, text_c = txt\<rparr>)
      else None)"

text \<open>
  The loop of \<^verbatim>\<open>compressChanges\<close> over \<^verbatim>\<open>this.contentChanges\<close>, with its two
  variables \<^verbatim>\<open>compressed\<close> and \<^verbatim>\<open>prev\<close> as the state.
\<close>

fun compressLoop ::
  "contentChange list \<Rightarrow> contentChange list \<Rightarrow> contentChange option
     \<Rightarrow> contentChange list \<times> contentChange option" where
  "compressLoop [] compressed prev = (compressed, prev)"
| "compressLoop (change # rest) compressed None = compressLoop rest compressed (Some change)"
| "compressLoop (change # rest) compressed (Some p) =
     (case merge p change of
        Some merged \<Rightarrow> compressLoop rest compressed (Some merged)
      | None \<Rightarrow> compressLoop rest (compressed @ [p]) (Some change))"

definition compressChanges :: "contentChange list \<Rightarrow> contentChange list" where
  "compressChanges contentChanges =
     (case compressLoop contentChanges [] None of
        (compressed, None) \<Rightarrow> compressed
      | (compressed, Some p) \<Rightarrow> compressed @ [p])"

text \<open>
  \<^verbatim>\<open>addChanges\<close>: the state of a \<^verbatim>\<open>DocumentContentChangeAction\<close> is its list
  \<^verbatim>\<open>contentChanges\<close>; the new changes are appended and the list is compressed.
\<close>

definition addChanges :: "contentChange list \<Rightarrow> contentChange list \<Rightarrow> contentChange list" where
  "addChanges contentChanges changes = compressChanges (contentChanges @ changes)"

section \<open>RecordedState and the actions run\<close>

text \<open>
  The actions of \<^verbatim>\<open>recordedState.actionsRun\<close>, as far as the code tells them
  apart: \<^verbatim>\<open>instanceof CommandNumber\<close> is the only test made on them. Each carries
  its \<^verbatim>\<open>keysPressed\<close>. Besides the number action and the operators, the action of
  the key \<^verbatim>\<open><Del>\<close> is named, since it writes the count.
\<close>

datatype action =
  CommandNumber "string list"
| Operator "string list"
| ActionDeleteCharWithDeleteKey "string list"
| OtherAction "string list"

text \<open>
  The fields of \<^verbatim>\<open>RecordedState\<close> that the code under study reads and writes.
  The two counts are JavaScript numbers, that is, doubles; they hold integers here. The
  arithmetic on them is modelled below only where it is exact.
\<close>

record recordedState =
  count :: int
  operatorCount :: int
  registerName :: string
  actionsRun :: "action list"

text \<open>
  Modelled from the spec: class \<^verbatim>\<open>RecordedState\<close> is not among the sources. A fresh
  pending command has count 0 (``unspecified''), operator count 0 and no actions run; the
  register name it starts with is a parameter.
\<close>

definition new_RecordedState :: "string \<Rightarrow> recordedState" where
  "new_RecordedState defaultRegister =
     \<lparr>count = 0, operatorCount = 0, registerName = defaultRegister, actionsRun = []\<rparr>"

subsection \<open>CommandNumber\<close>






definition isDigit :: "char \<Rightarrow> bool" where
  "isDigit c = (48 \<le> (of_char c :: nat) \<and> (of_char c :: nat) \<le> 57)"








text \<open>
  \<^verbatim>\<open>CommandNumber.doesActionApply\<close> and \<^verbatim>\<open>couldActionApply\<close>. The result of the
  inherited method (\<^verbatim>\<open>super.doesActionApply\<close>, class \<^verbatim>\<open>BaseAction\<close>, not among the
  sources) is the parameter \<open>super\<close>. \<^verbatim>\<open>keysPressed[0] === '0'\<close> is false on an empty
  list.
\<close>

definition isZeroKey :: "string list \<Rightarrow> bool" where
  "isZeroKey keysPressed = (case keysPressed of [] \<Rightarrow> False | k # ks \<Rightarrow> k = ''0'')"

definition CommandNumber_doesActionApply :: "bool \<Rightarrow> recordedState \<Rightarrow> string list \<Rightarrow> bool" where
  "CommandNumber_doesActionApply super rs keysPressed =
     (let isZero = isZeroKey keysPressed
      in super \<and> ((isZero \<and> count rs > 0) \<or> \<not> isZero))"

definition CommandNumber_couldActionApply :: "bool \<Rightarrow> recordedState \<Rightarrow> string list \<Rightarrow> bool" where
  "CommandNumber_couldActionApply super rs keysPressed =
     (let isZero = isZeroKey keysPressed
      in super \<and> ((isZero \<and> count rs > 0) \<or> \<not> isZero))"

text \<open>
  Modelled from the spec: the matcher that picks the action for a key is not among the
  sources. Section 4.1: among entries that share a key sequence and differ by an
  applicability predicate, the predicates are evaluated in registration order and the
  first satisfied one is taken. A catalog is a list of entries paired with the value of
  their predicate.
\<close>

fun resolveAction :: "('a \<times> bool) list \<Rightarrow> 'a option" where
  "resolveAction [] = None"
| "resolveAction ((a, applies) # rest) = (if applies then Some a else resolveAction rest)"



subsection \<open>CommandRegister\<close>

text \<open>
  The mutable part of a \<^verbatim>\<open>CommandRegister\<close> instance: the keys it was matched on and
  its flag \<^verbatim>\<open>isCompleteAction\<close>, which the class initialises to \<^verbatim>\<open>false\<close>.
\<close>

record commandRegister =
  keysPressed :: "string list"
  isCompleteAction :: bool

definition new_CommandRegister :: "string list \<Rightarrow> commandRegister" where
  "new_CommandRegister ks = \<lparr>keysPressed = ks, isCompleteAction = False\<rparr>"

text \<open>
  \<^verbatim>\<open>CommandRegister.exec\<close>. \<^verbatim>\<open>Register.isValidRegister\<close> (class \<^verbatim>\<open>Register\<close>, not
  among the sources) is the parameter \<open>isValidRegister\<close>. The action's key pattern has
  two keys; \<open>None\<close> stands for a call with fewer, where \<^verbatim>\<open>keysPressed[1]\<close> is
  \<^verbatim>\<open>undefined\<close>.
\<close>

definition CommandRegister_exec ::
  "(string \<Rightarrow> bool) \<Rightarrow> commandRegister \<Rightarrow> recordedState
     \<Rightarrow> (commandRegister \<times> recordedState) option" where
  "CommandRegister_exec isValidRegister this rs =
     (case keysPressed this of
        k0 # register # ks \<Rightarrow>
          if isValidRegister register
          then Some (this, rs\<lparr>registerName := register\<rparr>)
          else Some (this\<lparr>isCompleteAction := True\<rparr>, rs)
      | short \<Rightarrow> None)"

text \<open>The letters \<^verbatim>\<open>A\<close> to \<^verbatim>\<open>Z\<close> and \<^verbatim>\<open>a\<close> to \<^verbatim>\<open>z\<close>.\<close>

definition isLetter :: "char \<Rightarrow> bool" where
  "isLetter c =
     ((65 \<le> (of_char c :: nat) \<and> (of_char c :: nat) \<le> 90)
      \<or> (97 \<le> (of_char c :: nat) \<and> (of_char c :: nat) \<le> 122))"

text \<open>
  Modelled from the spec: \<^verbatim>\<open>Register.isValidRegister\<close> is not among the sources.
  Section 3: registers are keyed by a restricted alphabet, of which the spec names the
  letters, the digits, \<^verbatim>\<open>"\<close> and \<^verbatim>\<open>#\<close>. A register name is one such character.
\<close>

definition isValidRegister_spec :: "string \<Rightarrow> bool" where
  "isValidRegister_spec r =
     (case r of
        [c] \<Rightarrow> isLetter c \<or> isDigit c \<or> c = CHR 0x22 \<or> c = CHR ''#''
      | other \<Rightarrow> False)"

section \<open>VimState\<close>

text \<open>
  A JavaScript \<^verbatim>\<open>Map\<close> keeps its entries in the order in which their keys were first
  inserted; \<^verbatim>\<open>set\<close> on a key already present replaces the value where it stands. It
  is modelled as an association list.
\<close>

fun Map_set :: "'k \<Rightarrow> 'v \<Rightarrow> ('k \<times> 'v) list \<Rightarrow> ('k \<times> 'v) list" where
  "Map_set k v [] = [(k, v)]"
| "Map_set k v ((k', v') # m) = (if k' = k then (k, v) # m else (k', v') # Map_set k v m)"

fun Map_get :: "('k \<times> 'v) list \<Rightarrow> 'k \<Rightarrow> 'v option" where
  "Map_get [] k = None"
| "Map_get ((k', v') # m) k = (if k' = k then Some v' else Map_get m k)"

definition Map_values :: "('k \<times> 'v) list \<Rightarrow> 'v list" where
  "Map_values m = map snd m"

text \<open>The warnings sent to \<^verbatim>\<open>VimState.logger\<close>, one constructor per message.\<close>

datatype warning =
  InvalidCursorStartPosition position
| InvalidCursorStopPosition position
| EmptyCursorArray
| InvalidCursorPosition cursor

datatype error = TypeError

text \<open>
  The fields of \<^verbatim>\<open>VimState\<close> under study: \<^verbatim>\<open>_cursors\<close> (here \<open>cursors\<close>),
  \<^verbatim>\<open>recordedState\<close>, \<^verbatim>\<open>macro\<close>, and the log of warnings.
\<close>

record vimState =
  cursors :: "cursor list"
  recordedState :: recordedState
  macro :: "recordedState option"
  warnings :: "warning list"

definition new_VimState :: "string \<Rightarrow> vimState" where
  "new_VimState defaultRegister =
     \<lparr>cursors = [new_Cursor (new_Position 0 0) (new_Position 0 0)],
      recordedState = new_RecordedState defaultRegister,
      macro = None,
      warnings = []\<rparr>"

text \<open>
  Modelled from the spec: class \<^verbatim>\<open>Cursor\<close> is not among the sources. Section 3: a
  cursor is an ordered pair of immutable positions; \<^verbatim>\<open>withNewStart\<close> returns the
  cursor with its start replaced.
\<close>

definition withNewStart :: "cursor \<Rightarrow> position \<Rightarrow> cursor" where
  "withNewStart c p = c\<lparr>start := p\<rparr>"

text \<open>
  Modelled from the spec: as \<^verbatim>\<open>withNewStart\<close>; \<^verbatim>\<open>withNewStop\<close> returns the cursor
  with its stop replaced.
\<close>

definition withNewStop :: "cursor \<Rightarrow> position \<Rightarrow> cursor" where
  "withNewStop c p = c\<lparr>stop := p\<rparr>"

definition isMultiCursor :: "vimState \<Rightarrow> bool" where
  "isMultiCursor s = (length (cursors s) > 1)"

text \<open>
  The setters of \<^verbatim>\<open>cursorStartPosition\<close> and \<^verbatim>\<open>cursorStopPosition\<close>.
  \<^verbatim>\<open>value.isValid(this.editor)\<close> (not among the sources) is the parameter \<open>isValid\<close>.
  On an empty cursor array \<^verbatim>\<open>this.cursors[0]\<close> is \<^verbatim>\<open>undefined\<close> and the method call
  on it throws a \<^verbatim>\<open>TypeError\<close>.
\<close>

definition set_cursorStartPosition ::
  "(position \<Rightarrow> bool) \<Rightarrow> position \<Rightarrow> vimState \<Rightarrow> error + vimState" where
  "set_cursorStartPosition isValid v s =
     (let s1 = (if \<not> isValid v
                then s\<lparr>warnings := warnings s @ [InvalidCursorStartPosition v]\<rparr> else s)
      in case cursors s1 of
           [] \<Rightarrow> Inl TypeError
         | c # cs \<Rightarrow> Inr (s1\<lparr>cursors := withNewStart c v # cs\<rparr>))"

definition set_cursorStopPosition ::
  "(position \<Rightarrow> bool) \<Rightarrow> position \<Rightarrow> vimState \<Rightarrow> error + vimState" where
  "set_cursorStopPosition isValid v s =
     (let s1 = (if \<not> isValid v
                then s\<lparr>warnings := warnings s @ [InvalidCursorStopPosition v]\<rparr> else s)
      in case cursors s1 of
           [] \<Rightarrow> Inl TypeError
         | c # cs \<Rightarrow> Inr (s1\<lparr>cursors := withNewStop c v # cs\<rparr>))"

text \<open>
  The loop of the \<^verbatim>\<open>cursors\<close> setter: its state is the map and the log.
  \<^verbatim>\<open>cursor.isValid(this.editor)\<close> and \<^verbatim>\<open>cursor.toString()\<close> (not among the sources)
  are the parameters \<open>isValid\<close> and \<open>toString\<close>.
\<close>

fun cursorsLoop ::
  "(cursor \<Rightarrow> bool) \<Rightarrow> (cursor \<Rightarrow> string) \<Rightarrow> cursor list
     \<Rightarrow> (string \<times> cursor) list \<Rightarrow> warning list
     \<Rightarrow> (string \<times> cursor) list \<times> warning list" where
  "cursorsLoop isValid toString [] m w = (m, w)"
| "cursorsLoop isValid toString (c # cs) m w =
     cursorsLoop isValid toString cs
       (Map_set (toString c) c m)
       (if \<not> isValid c then w @ [InvalidCursorPosition c] else w)"

definition set_cursors ::
  "(cursor \<Rightarrow> bool) \<Rightarrow> (cursor \<Rightarrow> string) \<Rightarrow> cursor list \<Rightarrow> vimState \<Rightarrow> vimState" where
  "set_cursors isValid toString v s =
     (if length v = 0 then s\<lparr>warnings := warnings s @ [EmptyCursorArray]\<rparr>
      else (case cursorsLoop isValid toString v [] (warnings s) of
              (m, w) \<Rightarrow> s\<lparr>cursors := Map_values m, warnings := w\<rparr>))"

text \<open>
  The states a \<^verbatim>\<open>VimState\<close> reaches from its construction: through its three cursor
  setters, whatever the editor's validity test and the cursors' string form are; through
  the two changes that the commands make in place on the array that the getter returns,
  \<^verbatim>\<open>vimState.cursors.push(c)\<close> and \<^verbatim>\<open>vimState.cursors.reverse()\<close>; and through
  any change that leaves the cursors alone.
\<close>

inductive reachable :: "vimState \<Rightarrow> bool" where
  reachable_new: "reachable (new_VimState defaultRegister)"
| reachable_cursors:
    "reachable s \<Longrightarrow> reachable (set_cursors isValid toString v s)"
| reachable_start:
    "reachable s \<Longrightarrow> set_cursorStartPosition isValidP p s = Inr s' \<Longrightarrow> reachable s'"
| reachable_stop:
    "reachable s \<Longrightarrow> set_cursorStopPosition isValidP p s = Inr s' \<Longrightarrow> reachable s'"
| reachable_push:
    "reachable s \<Longrightarrow> reachable (s\<lparr>cursors := cursors s @ [c]\<rparr>)"
| reachable_reverse:
    "reachable s \<Longrightarrow> reachable (s\<lparr>cursors := rev (cursors s)\<rparr>)"
| reachable_other:
    "reachable s \<Longrightarrow> cursors s' = cursors s \<Longrightarrow> reachable s'"

text \<open>
  What the spec asks of the \<^verbatim>\<open>cursors\<close> setter, in its words: each distinct cursor
  once, in the order in which it was first seen.
\<close>

definition dedupFirstSeen :: "'a list \<Rightarrow> 'a list" where
  "dedupFirstSeen xs = rev (remdups (rev xs))"

text \<open>
  Modelled from the spec: \<^verbatim>\<open>Cursor.toString\<close> and \<^verbatim>\<open>Position.toString\<close> are not
  among the sources. Section 3: a cursor's identity is structural, so its string form
  names both positions, each by its line and character. A number is written in decimal.
\<close>

fun natToString :: "nat \<Rightarrow> string" where
  "natToString n =
     (if n < 10 then [char_of (48 + n)]
      else natToString (n div 10) @ [char_of (48 + n mod 10)])"

declare natToString.simps [simp del]

text \<open>
  Modelled from the spec: the string form of a position names its line and its
  character.
\<close>

definition Position_toString :: "position \<Rightarrow> string" where
  "Position_toString p = ''['' @ natToString (line p) @ '', '' @ natToString (character p) @ '']''"

text \<open>
  Modelled from the spec: the string form of a cursor names its start and its stop.
\<close>

definition Cursor_toString :: "cursor \<Rightarrow> string" where
  "Cursor_toString c =
     ''['' @ Position_toString (start c) @ '' | '' @ Position_toString (stop c) @ '']''"

section \<open>Macro recording\<close>

text \<open>
  The \<^verbatim>\<open>text\<close> of a register: plain text or a recorded state. The register table is
  process-wide; it is passed beside the \<^verbatim>\<open>VimState\<close>.
\<close>

datatype registerContent =
  TextContent string
| MacroContent recordedState











definition CommandQuitRecordMacro_doesActionApply :: "bool \<Rightarrow> vimState \<Rightarrow> bool" where
  "CommandQuitRecordMacro_doesActionApply super s = (super \<and> macro s \<noteq> None)"


section \<open>SneakHighlighter\<close>

text \<open>
  A \<^verbatim>\<open>Marker\<close> of the easymotion plugin, of which only the name is read.
  \<^verbatim>\<open>new MarkerGenerator(count, targets).generateMarker(index, position, flag)\<close> (not
  among the sources) is the parameter \<open>mg\<close>; \<open>None\<close> is its \<^verbatim>\<open>null\<close>.
\<close>

record marker =
  name :: string
  markerPosition :: position

type_synonym markerGenerator =
  "nat \<Rightarrow> string \<Rightarrow> nat \<Rightarrow> position \<Rightarrow> bool \<Rightarrow> marker option"

text \<open>
  The first version of the class (it reads \<^verbatim>\<open>vscode.window.activeTextEditor\<close>): the
  loop of \<^verbatim>\<open>generateMarkers\<close> with its counter \<^verbatim>\<open>index\<close>, over the table
  \<^verbatim>\<open>this.markers\<close>.
\<close>

fun generateMarkersLoop_v1 ::
  "(nat \<Rightarrow> position \<Rightarrow> bool \<Rightarrow> marker option) \<Rightarrow> vrange list \<Rightarrow> nat
     \<Rightarrow> (string \<times> vrange) list \<Rightarrow> (string \<times> vrange) list" where
  "generateMarkersLoop_v1 gen [] index markers = markers"
| "generateMarkersLoop_v1 gen (r # rs) index markers =
     (case gen index (new_Position (line (rstart r)) (character (rstart r))) False of
        Some mk \<Rightarrow>
          generateMarkersLoop_v1 gen rs (index + 1)
            (Map_set (name mk) (new_Range (rstart r) (rstart r)) markers)
      | None \<Rightarrow> markers)"

definition generateMarkers_v1 ::
  "markerGenerator \<Rightarrow> string \<Rightarrow> vrange list \<Rightarrow> (string \<times> vrange) list
     \<Rightarrow> (string \<times> vrange) list" where
  "generateMarkers_v1 mg sneakLabelTargets rangesToHighlight markers =
     (let markerGenerator = mg (length rangesToHighlight) sneakLabelTargets
      in generateMarkersLoop_v1 markerGenerator rangesToHighlight 0 markers)"

definition getMarkPosition_v1 :: "(string \<times> vrange) list \<Rightarrow> string \<Rightarrow> position option" where
  "getMarkPosition_v1 markers mk =
     (case Map_get markers mk of
        None \<Rightarrow> None
      | Some markerRange \<Rightarrow>
          Some (new_Position (line (rstart markerRange)) (character (rstart markerRange))))"

text \<open>The second version of the class (it takes the editor as an argument).\<close>

fun generateMarkersLoop_v2 ::
  "(nat \<Rightarrow> position \<Rightarrow> bool \<Rightarrow> marker option) \<Rightarrow> vrange list \<Rightarrow> nat
     \<Rightarrow> (string \<times> vrange) list \<Rightarrow> (string \<times> vrange) list" where
  "generateMarkersLoop_v2 gen [] index markers = markers"
| "generateMarkersLoop_v2 gen (r # rs) index markers =
     (case gen index (new_Position (line (rstart r)) (character (rstart r))) False of
        Some mk \<Rightarrow>
          generateMarkersLoop_v2 gen rs (index + 1)
            (Map_set (name mk) (new_Range (rstart r) (rstart r)) markers)
      | None \<Rightarrow> markers)"

definition generateMarkers_v2 ::
  "markerGenerator \<Rightarrow> string \<Rightarrow> vrange list \<Rightarrow> (string \<times> vrange) list
     \<Rightarrow> (string \<times> vrange) list" where
  "generateMarkers_v2 mg sneakLabelTargets rangesToHighlight markers =
     (let markerGenerator = mg (length rangesToHighlight) sneakLabelTargets
      in generateMarkersLoop_v2 markerGenerator rangesToHighlight 0 markers)"

definition getMarkPosition_v2 :: "(string \<times> vrange) list \<Rightarrow> string \<Rightarrow> position option" where
  "getMarkPosition_v2 markers mk =
     (case Map_get markers mk of
        None \<Rightarrow> None
      | Some markerRange \<Rightarrow>
          Some (new_Position (line (rstart markerRange)) (character (rstart markerRange))))"


section \<open>Example inputs\<close>

text \<open>A content change on line 0, used for concrete inputs below.\<close>

definition mkChange :: "nat \<Rightarrow> nat \<Rightarrow> nat \<Rightarrow> nat \<Rightarrow> string \<Rightarrow> contentChange" where
  "mkChange startChar endChar off len txt =
     \<lparr>range_c = new_Range (new_Position 0 startChar) (new_Position 0 endChar),
      rangeOffset = off, rangeLength = len, text_c = txt\<rparr>"

text \<open>Three cursors used as concrete inputs below.\<close>

definition cursorA :: cursor where
  "cursorA = new_Cursor (new_Position 2 3) (new_Position 2 3)"

definition cursorB :: cursor where
  "cursorB = new_Cursor (new_Position 0 0) (new_Position 0 4)"

definition cursorC :: cursor where
  "cursorC = new_Cursor (new_Position 0 0) (new_Position 5 0)"

text \<open>
  A validity test used as a concrete input below: that of an editor whose document has
  line 0 only. A cursor is valid when both its positions are.
\<close>

definition oneLineIsValid :: "position \<Rightarrow> bool" where
  "oneLineIsValid p = (line p < 1)"

definition oneLineCursorIsValid :: "cursor \<Rightarrow> bool" where
  "oneLineCursorIsValid c = (oneLineIsValid (start c) \<and> oneLineIsValid (stop c))"


section \<open>Compression of content changes\<close>

lemma merge_concat:
  "rangeOffset first + length (text_c first) = rangeOffset second \<or> rangeLength second = 0
   \<Longrightarrow> merge first second = Some (first\<lparr>text_c := text_c first @ text_c second\<rparr>)"
  by (simp add: merge_def)

lemma merge_splice_guard:
  "\<not> (rangeOffset first + length (text_c first) = rangeOffset second \<or> rangeLength second = 0)
   \<Longrightarrow> rangeOffset first \<le> rangeOffset second \<Longrightarrow> rangeLength second \<le> length (text_c first)
   \<Longrightarrow> merge first second =
        Some (first\<lparr>text_c := take (rangeOffset second - rangeOffset first) (text_c first)
                 @ text_c second
                 @ drop (rangeOffset second - rangeOffset first + rangeLength second) (text_c first)\<rparr>)"
  by (simp add: merge_def slice_to_def slice_from_def Let_def)

lemma merge_none:
  "\<not> (rangeOffset first + length (text_c first) = rangeOffset second \<or> rangeLength second = 0)
   \<Longrightarrow> rangeOffset second < rangeOffset first \<or> length (text_c first) < rangeLength second
   \<Longrightarrow> merge first second = None"
  by (auto simp add: merge_def)

lemma addChanges_pair:
  "addChanges [] [first, second] =
     (case merge first second of Some m \<Rightarrow> [m] | None \<Rightarrow> [first, second])"
  by (simp add: addChanges_def compressChanges_def split: option.split)



text \<open>
  What the code does as claim C5 says: when the concatenation rule does not apply and the
  text of the first change contains the range the second replaces, the two are merged by
  putting the second's text in place of that part of the first's text; when the second
  starts before the first or replaces more than the length of the first's text, both
  are kept, in their order.
\<close>

lemma splice_when_contained_keep_when_guard_fails:
  assumes "\<not> (rangeOffset first + length (text_c first) = rangeOffset second
              \<or> rangeLength second = 0)"
  shows "(rangeOffset first \<le> rangeOffset second
          \<and> rangeOffset second + rangeLength second \<le> rangeOffset first + length (text_c first)
          \<longrightarrow> addChanges [] [first, second] =
                [\<lparr>range_c = range_c first, rangeOffset = rangeOffset first,
                  rangeLength = rangeLength first,
                  text_c = take (rangeOffset second - rangeOffset first) (text_c first)
                           @ text_c second
                           @ drop (rangeOffset second - rangeOffset first + rangeLength second)
                               (text_c first)\<rparr>])
       \<and> (rangeOffset second < rangeOffset first \<or> length (text_c first) < rangeLength second
          \<longrightarrow> addChanges [] [first, second] = [first, second]
              \<and> compressLoop (second # rest) compressed (Some first) =
                  compressLoop rest (compressed @ [first]) (Some second))"
proof (intro conjI impI)
  assume c: "rangeOffset first \<le> rangeOffset second
          \<and> rangeOffset second + rangeLength second \<le> rangeOffset first + length (text_c first)"
  then have "rangeLength second \<le> length (text_c first)" by arith
  with assms c show "addChanges [] [first, second] =
                [\<lparr>range_c = range_c first, rangeOffset = rangeOffset first,
                  rangeLength = rangeLength first,
                  text_c = take (rangeOffset second - rangeOffset first) (text_c first)
                           @ text_c second
                           @ drop (rangeOffset second - rangeOffset first + rangeLength second)
                               (text_c first)\<rparr>]"
    by (simp add: addChanges_pair merge_splice_guard)
next
  assume "rangeOffset second < rangeOffset first \<or> length (text_c first) < rangeLength second"
  with assms have n: "merge first second = None" by (rule merge_none)
  then show "addChanges [] [first, second] = [first, second]"
    by (simp add: addChanges_pair)
  from n show "compressLoop (second # rest) compressed (Some first) =
                  compressLoop rest (compressed @ [first]) (Some second)"
    by simp
qed

text \<open>
  Claim C5. When the concatenation rule does not apply and the text of the first change
  does not contain the range that the second replaces, both changes are to be kept as
  separate entries, and no change is to be dropped. The code fails this: the change
  \<open>X\<close> replacing one unit at offset 5 lies beyond the two units \<open>ab\<close> inserted at
  offset 0, yet the guard of the branch for a second change that replaces part of the
  first lets it through (it compares lengths only), and the two are merged into
  \<open>abX\<close> at offset 0, which no longer replaces the unit at offset 5. A deletion of
  that unit is merged away altogether: the compressed list is that of \<open>ab\<close> alone.
\<close>

theorem splice_merges_change_beyond_first:
  "rangeOffset (mkChange 0 0 0 0 ''ab'') + length (text_c (mkChange 0 0 0 0 ''ab''))
     < rangeOffset (mkChange 5 6 5 1 ''X'')
   \<and> 0 < rangeLength (mkChange 5 6 5 1 ''X'')
   \<and> merge (mkChange 0 0 0 0 ''ab'') (mkChange 5 6 5 1 ''X'') = Some (mkChange 0 0 0 0 ''abX'')
   \<and> addChanges [] [mkChange 0 0 0 0 ''ab'', mkChange 5 6 5 1 ''X'']
        = [mkChange 0 0 0 0 ''abX'']
   \<and> addChanges [] [mkChange 0 0 0 0 ''ab'', mkChange 5 6 5 1 []]
        = [mkChange 0 0 0 0 ''ab'']
   \<and> addChanges [] [mkChange 0 0 0 0 ''ab''] = [mkChange 0 0 0 0 ''ab'']"
  by (simp add: addChanges_pair merge_def slice_to_def slice_from_def mkChange_def
      addChanges_def compressChanges_def)

section \<open>Counts, digits and registers\<close>









text \<open>
  Claim C8. The number action applies to the key \<open>0\<close> exactly when the inherited test
  holds (the mode is one of the action's modes, Normal and the Visual modes among them,
  and the key is a digit) and a count greater than 0 is accumulated; to any other digit
  it applies whenever the inherited test holds. So with no count accumulated the key
  \<open>0\<close> is not a count digit, and the choice among the catalog's entries passes on to
  the entries after the number action; with a count it is a count digit.
\<close>

theorem zero_is_count_digit_only_after_count:
  "CommandNumber_doesActionApply super rs (''0'' # ks) = (super \<and> count rs > 0)
   \<and> CommandNumber_couldActionApply super rs (''0'' # ks) = (super \<and> count rs > 0)
   \<and> (k \<noteq> ''0'' \<longrightarrow> CommandNumber_doesActionApply super rs (k # ks) = super
                   \<and> CommandNumber_couldActionApply super rs (k # ks) = super)
   \<and> (count rs = 0 \<longrightarrow>
        \<not> CommandNumber_doesActionApply super rs (''0'' # ks)
        \<and> resolveAction ((a, CommandNumber_doesActionApply super rs (''0'' # ks)) # rest)
            = resolveAction rest)
   \<and> (super \<and> count rs > 0 \<longrightarrow>
        resolveAction ((a, CommandNumber_doesActionApply super rs (''0'' # ks)) # rest)
            = Some a)"
  by (simp add: CommandNumber_doesActionApply_def CommandNumber_couldActionApply_def
      isZeroKey_def)

theorem zero_is_count_digit_only_after_count_witness:
  "\<not> CommandNumber_doesActionApply True (new_RecordedState ''x'') [''0'']
   \<and> resolveAction [(''CommandNumber'',
          CommandNumber_doesActionApply True (new_RecordedState ''x'') [''0'']),
        (''MoveLineBegin'', True)] = Some ''MoveLineBegin''
   \<and> resolveAction [(''CommandNumber'',
          CommandNumber_doesActionApply True ((new_RecordedState ''x'')\<lparr>count := 1\<rparr>) [''0'']),
        (''MoveLineBegin'', True)] = Some ''CommandNumber''
   \<and> CommandNumber_doesActionApply True (new_RecordedState ''x'') [''7'']"
  using zero_is_count_digit_only_after_count
          [of True "new_RecordedState ''x''" "[]" "''7''" "''CommandNumber''"
              "[(''MoveLineBegin'', True)]"]
        zero_is_count_digit_only_after_count
          [of True "(new_RecordedState ''x'')\<lparr>count := 1\<rparr>" "[]" "''7''" "''CommandNumber''"
              "[(''MoveLineBegin'', True)]"]
  by (simp add: new_RecordedState_def)

text \<open>
  Claim C7 as stated fails: after the key \<open>!\<close>, which is no register name, the flag
  \<open>isCompleteAction\<close> of the register-selection action is not false.
\<close>

theorem invalid_register_counterexample:
  "\<not> isValidRegister_spec ''!''
   \<and> map_option (isCompleteAction \<circ> fst)
        (CommandRegister_exec isValidRegister_spec
           (new_CommandRegister [[CHR 0x22], ''!'']) (new_RecordedState [CHR 0x22]))
      \<noteq> Some False"
  by (simp add: CommandRegister_exec_def new_CommandRegister_def isValidRegister_spec_def
      isLetter_def isDigit_def)

text \<open>
  Claim C7, amended. For every key pressed after the register-selection key that is not
  a valid register name, the flag \<open>isCompleteAction\<close> of the register-selection action
  becomes true: the action is then complete and does nothing else, and the register
  name of the pending command is unchanged, as is all the rest of it.
\<close>

theorem invalid_register_completes_action:
  assumes "\<not> isValidRegister register"
  shows "CommandRegister_exec isValidRegister (new_CommandRegister [k0, register]) rs
           = Some (\<lparr>keysPressed = [k0, register], isCompleteAction = True\<rparr>, rs)
       \<and> (keysPressed this = k0 # register # ks \<longrightarrow>
            CommandRegister_exec isValidRegister this rs
              = Some (this\<lparr>isCompleteAction := True\<rparr>, rs))"
  using assms by (simp add: CommandRegister_exec_def new_CommandRegister_def)

theorem invalid_register_completes_action_witness:
  "\<not> isValidRegister_spec ''!''
   \<and> CommandRegister_exec isValidRegister_spec
        (new_CommandRegister [[CHR 0x22], ''!'']) (new_RecordedState [CHR 0x22])
      = Some (\<lparr>keysPressed = [[CHR 0x22], ''!''], isCompleteAction = True\<rparr>,
              new_RecordedState [CHR 0x22])"
  using invalid_register_completes_action
          [of isValidRegister_spec "''!''" "[CHR 0x22]" "new_RecordedState [CHR 0x22]"]
  by (simp add: isValidRegister_spec_def isLetter_def isDigit_def)


section \<open>The cursor setters\<close>

lemma Map_set_not_empty: "Map_set k v m \<noteq> []"
  by (cases m) (auto split: if_splits)

lemma cursorsLoop_fst:
  "fst (cursorsLoop isValid toString xs m w) = fold (\<lambda>c. Map_set (toString c) c) xs m"
  by (induction xs arbitrary: m w) simp_all

lemma cursorsLoop_snd:
  "snd (cursorsLoop isValid toString xs m w)
     = w @ map InvalidCursorPosition (filter (\<lambda>c. \<not> isValid c) xs)"
  by (induction xs arbitrary: m w) simp_all

lemma fold_Map_set_not_empty:
  "m \<noteq> [] \<Longrightarrow> fold (\<lambda>c. Map_set (toString c) c) xs m \<noteq> []"
  by (induction xs arbitrary: m) (simp_all add: Map_set_not_empty)

lemma set_cursors_cursors:
  "v \<noteq> [] \<Longrightarrow>
   cursors (set_cursors isValid toString v s)
     = map snd (fold (\<lambda>c. Map_set (toString c) c) v [])"
  by (simp add: set_cursors_def Map_values_def case_prod_beta cursorsLoop_fst)

lemma set_cursors_warnings:
  "v \<noteq> [] \<Longrightarrow>
   warnings (set_cursors isValid toString v s)
     = warnings s @ map InvalidCursorPosition (filter (\<lambda>c. \<not> isValid c) v)"
  by (simp add: set_cursors_def case_prod_beta cursorsLoop_snd)

lemma set_cursors_not_empty:
  "cursors s \<noteq> [] \<Longrightarrow> cursors (set_cursors isValid toString v s) \<noteq> []"
proof (cases v)
  case Nil
  assume "cursors s \<noteq> []"
  with Nil show ?thesis by (simp add: set_cursors_def)
next
  case (Cons c cs)
  have "fold (\<lambda>c. Map_set (toString c) c) cs (Map_set (toString c) c []) \<noteq> []"
    by (rule fold_Map_set_not_empty) simp
  with Cons show ?thesis by (simp add: set_cursors_cursors)
qed

lemma set_cursorStartPosition_not_empty:
  "set_cursorStartPosition isValid p s = Inr s' \<Longrightarrow> cursors s' \<noteq> []"
  by (auto simp add: set_cursorStartPosition_def Let_def split: list.splits if_splits)

lemma set_cursorStopPosition_not_empty:
  "set_cursorStopPosition isValid p s = Inr s' \<Longrightarrow> cursors s' \<noteq> []"
  by (auto simp add: set_cursorStopPosition_def Let_def split: list.splits if_splits)

lemma reachable_cursors_not_empty: "reachable s \<Longrightarrow> cursors s \<noteq> []"
proof (induction rule: reachable.induct)
  case (reachable_new defaultRegister)
  show ?case by (simp add: new_VimState_def)
next
  case (reachable_cursors s isValid toString v)
  then show ?case by (simp add: set_cursors_not_empty)
next
  case (reachable_start s isValidP p s')
  then show ?case by (simp add: set_cursorStartPosition_not_empty)
next
  case (reachable_stop s isValidP p s')
  then show ?case by (simp add: set_cursorStopPosition_not_empty)
next
  case (reachable_push s c)
  show ?case by simp
next
  case (reachable_reverse s)
  then show ?case by simp
next
  case (reachable_other s s')
  then show ?case by simp
qed

lemma dedupFirstSeen_snoc:
  "dedupFirstSeen (xs @ [x]) = (if x \<in> set xs then dedupFirstSeen xs else dedupFirstSeen xs @ [x])"
  by (simp add: dedupFirstSeen_def)

lemma set_dedupFirstSeen: "set (dedupFirstSeen xs) = set xs"
  by (simp add: dedupFirstSeen_def)

lemma distinct_dedupFirstSeen: "distinct (dedupFirstSeen xs)"
  by (simp add: dedupFirstSeen_def)

lemma Map_set_keyed:
  "inj_on f (insert x (set ys)) \<Longrightarrow>
   Map_set (f x) x (map (\<lambda>c. (f c, c)) ys)
     = (if x \<in> set ys then map (\<lambda>c. (f c, c)) ys else map (\<lambda>c. (f c, c)) ys @ [(f x, x)])"
proof (induction ys)
  case Nil
  show ?case by simp
next
  case (Cons y ys)
  from Cons.prems have inj: "inj_on f (insert x (set ys))"
    by (rule inj_on_subset) auto
  from Cons.prems have eq: "f y = f x \<longleftrightarrow> y = x"
    by (auto simp add: inj_on_def)
  show ?case using Cons.IH [OF inj] eq by auto
qed

lemma fold_Map_set_dedup:
  "inj_on f (set xs) \<Longrightarrow>
   fold (\<lambda>c. Map_set (f c) c) xs [] = map (\<lambda>c. (f c, c)) (dedupFirstSeen xs)"
proof (induction xs rule: rev_induct)
  case Nil
  show ?case by (simp add: dedupFirstSeen_def)
next
  case (snoc x xs)
  from snoc.prems have inj: "inj_on f (set xs)"
    by (rule inj_on_subset) auto
  from snoc.prems have inj': "inj_on f (insert x (set (dedupFirstSeen xs)))"
    by (simp add: set_dedupFirstSeen)
  show ?case
    using snoc.IH [OF inj] Map_set_keyed [OF inj']
    by (simp add: dedupFirstSeen_snoc set_dedupFirstSeen)
qed

text \<open>
  The string form modelled from the spec tells apart any two cursors that differ, so the
  hypothesis of the theorem on deduplication below holds of it on every list.
\<close>

lemma natToString_not_empty: "natToString n \<noteq> []"
  by (subst natToString.simps) simp

lemma natToString_digits: "c \<in> set (natToString n) \<Longrightarrow> isDigit c"
proof (induction n rule: natToString.induct)
  case (1 n)
  show ?case
  proof (cases "n < 10")
    case True
    with "1.prems" have "c = char_of (48 + n)"
      by (subst (asm) natToString.simps) simp
    with True show ?thesis by (simp add: isDigit_def)
  next
    case False
    with "1.prems" have "c \<in> set (natToString (n div 10)) \<or> c = char_of (48 + n mod 10)"
      by (subst (asm) natToString.simps) auto
    then show ?thesis
    proof
      assume "c \<in> set (natToString (n div 10))"
      with False "1.IH" show ?thesis by simp
    next
      assume c: "c = char_of (48 + n mod 10)"
      have "n mod 10 < 10" by simp
      then have "(48 + n mod 10) mod 256 = 48 + n mod 10" by simp
      with c show ?thesis by (simp add: isDigit_def)
    qed
  qed
qed

lemma digit_char_inj:
  "a < 10 \<Longrightarrow> b < 10 \<Longrightarrow> char_of (48 + a) = char_of (48 + b) \<Longrightarrow> a = (b::nat)"
proof -
  assume a: "a < 10" and b: "b < 10" and e: "char_of (48 + a) = char_of (48 + b)"
  from e have "(of_char (char_of (48 + a)) :: nat) = of_char (char_of (48 + b))" by simp
  with a b show "a = b" by simp
qed

lemma natToString_inj: "natToString n = natToString m \<Longrightarrow> n = m"
proof (induction n arbitrary: m rule: natToString.induct)
  case (1 n)
  show ?case
  proof (cases "n < 10")
    case n: True
    show ?thesis
    proof (cases "m < 10")
      case True
      with n "1.prems" have "char_of (48 + n) = char_of (48 + m)"
        by (simp add: natToString.simps [of n] natToString.simps [of m])
      with n True show ?thesis by (rule digit_char_inj)
    next
      case False
      with n "1.prems" have "[char_of (48 + n)] = natToString (m div 10) @ [char_of (48 + m mod 10)]"
        by (simp add: natToString.simps [of n] natToString.simps [of m])
      then have "natToString (m div 10) = []" by simp
      with natToString_not_empty show ?thesis by blast
    qed
  next
    case n: False
    show ?thesis
    proof (cases "m < 10")
      case True
      with n "1.prems" have "natToString (n div 10) @ [char_of (48 + n mod 10)] = [char_of (48 + m)]"
        by (simp add: natToString.simps [of n] natToString.simps [of m])
      then have "natToString (n div 10) = []" by simp
      with natToString_not_empty show ?thesis by blast
    next
      case False
      with n "1.prems" have
        e: "natToString (n div 10) @ [char_of (48 + n mod 10)]
              = natToString (m div 10) @ [char_of (48 + m mod 10)]"
        by (simp add: natToString.simps [of n] natToString.simps [of m])
      then have "natToString (n div 10) = natToString (m div 10)" by simp
      with n "1.IH" have d: "n div 10 = m div 10" by simp
      from e have "char_of (48 + n mod 10) = char_of (48 + m mod 10)" by simp
      then have r: "n mod 10 = m mod 10" by (intro digit_char_inj) simp_all
      from d r show ?thesis by (metis div_mult_mod_eq)
    qed
  qed
qed

lemma split_at_separator:
  "x \<notin> set xs \<Longrightarrow> x \<notin> set xs' \<Longrightarrow> xs @ x # ys = xs' @ x # ys'
   \<Longrightarrow> xs = xs' \<and> ys = ys'"
proof (induction xs arbitrary: xs')
  case Nil
  then show ?case by (cases xs') auto
next
  case (Cons a xs)
  then show ?case by (cases xs') auto
qed

lemma comma_not_in_natToString: "CHR '','' \<notin> set (natToString n)"
  using natToString_digits [of "CHR '',''" n] by (auto simp add: isDigit_def)

lemma Position_toString_inj: "Position_toString p = Position_toString q \<Longrightarrow> p = q"
proof -
  assume "Position_toString p = Position_toString q"
  then have e: "natToString (line p) @ CHR '','' # ('' '' @ natToString (character p) @ '']'')
              = natToString (line q) @ CHR '','' # ('' '' @ natToString (character q) @ '']'')"
    by (simp add: Position_toString_def)
  then have "natToString (line p) = natToString (line q)
           \<and> '' '' @ natToString (character p) @ '']'' = '' '' @ natToString (character q) @ '']''"
    by (rule split_at_separator [OF comma_not_in_natToString comma_not_in_natToString])
  then have "line p = line q" and "character p = character q"
    by (auto dest: natToString_inj)
  then show "p = q" by simp
qed

lemma bar_not_in_Position_toString: "CHR ''|'' \<notin> set (Position_toString p)"
  using natToString_digits [of "CHR ''|''" "line p"]
        natToString_digits [of "CHR ''|''" "character p"]
  by (auto simp add: Position_toString_def isDigit_def)

lemma Cursor_toString_inj: "inj Cursor_toString"
proof (rule injI)
  fix c d
  assume "Cursor_toString c = Cursor_toString d"
  then have e: "(Position_toString (start c) @ '' '') @ CHR ''|'' # ('' '' @ Position_toString (stop c) @ '']'')
              = (Position_toString (start d) @ '' '') @ CHR ''|'' # ('' '' @ Position_toString (stop d) @ '']'')"
    by (simp add: Cursor_toString_def)
  have nc: "CHR ''|'' \<notin> set (Position_toString (start c) @ '' '')"
    and nd: "CHR ''|'' \<notin> set (Position_toString (start d) @ '' '')"
    using bar_not_in_Position_toString by simp_all
  from e have "Position_toString (start c) @ '' '' = Position_toString (start d) @ '' ''
           \<and> '' '' @ Position_toString (stop c) @ '']'' = '' '' @ Position_toString (stop d) @ '']''"
    by (rule split_at_separator [OF nc nd])
  then have "start c = start d" and "stop c = stop d"
    by (auto dest: Position_toString_inj)
  then show "c = d" by simp
qed

lemma set_cursors_state:
  assumes "v \<noteq> []" and "inj_on toString (set v)"
  shows "set_cursors isValid toString v s =
           s\<lparr>cursors := dedupFirstSeen v,
             warnings := warnings s @ map InvalidCursorPosition (filter (\<lambda>c. \<not> isValid c) v)\<rparr>"
  using assms
  by (simp add: set_cursors_def case_prod_beta cursorsLoop_fst cursorsLoop_snd Map_values_def
      fold_Map_set_dedup comp_def)

lemma Map_set_values: "set (map snd (Map_set k x m)) \<subseteq> insert x (set (map snd m))"
proof (induction m)
  case Nil
  show ?case by simp
next
  case (Cons e m)
  then show ?case by (cases e) auto
qed

lemma fold_Map_set_values:
  "set (map snd (fold (\<lambda>c. Map_set (f c) c) xs m)) \<subseteq> set (map snd m) \<union> set xs"
proof (induction xs arbitrary: m)
  case Nil
  show ?case by simp
next
  case (Cons x xs)
  from Cons.IH [of "Map_set (f x) x m"] Map_set_values [of "f x" x m]
  show ?case by auto
qed

lemma Map_set_member: "x \<in> set (map snd (Map_set k x m))"
proof (induction m)
  case Nil
  show ?case by simp
next
  case (Cons e m)
  then show ?case by (cases e) auto
qed

lemma fold_Map_set_last:
  "xs \<noteq> [] \<Longrightarrow> last xs \<in> set (map snd (fold (\<lambda>c. Map_set (f c) c) xs m))"
proof (induction xs arbitrary: m rule: rev_induct)
  case Nil
  then show ?case by simp
next
  case (snoc x xs)
  show ?case using Map_set_member [of x "f x"] by simp
qed

text \<open>
  Claim C2 as stated fails: in an editor whose only line is line 0, the position
  \<open>(5, 0)\<close> is invalid, yet assigning it as the cursor's stop position, or in a list
  of cursors, changes the stored cursors.
\<close>

theorem invalid_position_counterexample:
  "\<not> oneLineIsValid (new_Position 5 0)
   \<and> map_sum id cursors
        (set_cursorStopPosition oneLineIsValid (new_Position 5 0) (new_VimState ''x''))
      \<noteq> Inr (cursors (new_VimState ''x''))
   \<and> \<not> oneLineCursorIsValid (new_Cursor (new_Position 0 0) (new_Position 5 0))
   \<and> cursors
        (set_cursors oneLineCursorIsValid Cursor_toString
           [new_Cursor (new_Position 0 0) (new_Position 5 0)] (new_VimState ''x''))
      \<noteq> cursors (new_VimState ''x'')"
  by (simp add: set_cursorStopPosition_def set_cursors_def new_VimState_def new_Position_def
      new_Cursor_def withNewStop_def Map_values_def oneLineIsValid_def
      oneLineCursorIsValid_def)

text \<open>
  Claim C2, amended. An assignment of a cursor position or of a list of cursors that
  holds a position invalid for the editor is logged, one warning for each invalid value,
  and raises no exception; the assignment takes effect all the same, and the previous
  cursors are not retained. The first cursor's start or stop becomes the assigned
  position. Of a non-empty list, the cursors stored are those of the list, the invalid
  ones with the others: every stored cursor is one of the list, the last of the list is
  stored, and for a string form that tells apart the cursors of the list (that modelled
  from the spec is one) the stored cursors are the list without its repetitions, in the
  order of first occurrence. Nothing else of the state changes.
\<close>

theorem invalid_position_logged_and_stored:
  "(cursors s = c # cs \<longrightarrow>
      set_cursorStopPosition isValid p s =
        Inr (s\<lparr>cursors := withNewStop c p # cs,
               warnings := warnings s @ (if isValid p then [] else [InvalidCursorStopPosition p])\<rparr>)
      \<and> set_cursorStartPosition isValid p s =
        Inr (s\<lparr>cursors := withNewStart c p # cs,
               warnings := warnings s @ (if isValid p then [] else [InvalidCursorStartPosition p])\<rparr>))
   \<and> (v \<noteq> [] \<longrightarrow>
        (inj_on toString (set v) \<longrightarrow>
           set_cursors isValidC toString v s =
             s\<lparr>cursors := dedupFirstSeen v,
               warnings := warnings s @ map InvalidCursorPosition (filter (\<lambda>c. \<not> isValidC c) v)\<rparr>)
        \<and> set_cursors isValidC Cursor_toString v s =
             s\<lparr>cursors := dedupFirstSeen v,
               warnings := warnings s @ map InvalidCursorPosition (filter (\<lambda>c. \<not> isValidC c) v)\<rparr>
        \<and> set (cursors (set_cursors isValidC toString v s)) \<subseteq> set v
        \<and> last v \<in> set (cursors (set_cursors isValidC toString v s))
        \<and> cursors (set_cursors isValidC toString v s)
          = cursors (set_cursors (\<lambda>c. True) toString v s)
        \<and> warnings (set_cursors isValidC toString v s)
          = warnings s @ map InvalidCursorPosition (filter (\<lambda>c. \<not> isValidC c) v))
   \<and> cursors (set_cursors isValidC toString [c1] s) = [c1]"
proof (intro conjI impI)
  assume "cursors s = c # cs"
  then show "set_cursorStopPosition isValid p s =
        Inr (s\<lparr>cursors := withNewStop c p # cs,
               warnings := warnings s @ (if isValid p then [] else [InvalidCursorStopPosition p])\<rparr>)"
    by (simp add: set_cursorStopPosition_def)
next
  assume "cursors s = c # cs"
  then show "set_cursorStartPosition isValid p s =
        Inr (s\<lparr>cursors := withNewStart c p # cs,
               warnings := warnings s @ (if isValid p then [] else [InvalidCursorStartPosition p])\<rparr>)"
    by (simp add: set_cursorStartPosition_def)
next
  assume "v \<noteq> []" and "inj_on toString (set v)"
  then show "set_cursors isValidC toString v s =
             s\<lparr>cursors := dedupFirstSeen v,
               warnings := warnings s @ map InvalidCursorPosition (filter (\<lambda>c. \<not> isValidC c) v)\<rparr>"
    by (rule set_cursors_state)
next
  assume v: "v \<noteq> []"
  have "inj_on Cursor_toString (set v)"
    using Cursor_toString_inj by (rule inj_on_subset) simp
  with v show "set_cursors isValidC Cursor_toString v s =
             s\<lparr>cursors := dedupFirstSeen v,
               warnings := warnings s @ map InvalidCursorPosition (filter (\<lambda>c. \<not> isValidC c) v)\<rparr>"
    by (rule set_cursors_state)
next
  assume "v \<noteq> []"
  then show "set (cursors (set_cursors isValidC toString v s)) \<subseteq> set v"
    using fold_Map_set_values [of toString v "[]"] by (simp add: set_cursors_cursors)
next
  assume "v \<noteq> []"
  then show "last v \<in> set (cursors (set_cursors isValidC toString v s))"
    using fold_Map_set_last [of v toString "[]"] by (simp add: set_cursors_cursors)
next
  assume "v \<noteq> []"
  then show "cursors (set_cursors isValidC toString v s)
          = cursors (set_cursors (\<lambda>c. True) toString v s)"
    by (simp add: set_cursors_cursors)
next
  assume "v \<noteq> []"
  then show "warnings (set_cursors isValidC toString v s)
          = warnings s @ map InvalidCursorPosition (filter (\<lambda>c. \<not> isValidC c) v)"
    by (rule set_cursors_warnings)
next
  show "cursors (set_cursors isValidC toString [c1] s) = [c1]"
    by (simp add: set_cursors_cursors)
qed

theorem invalid_position_logged_and_stored_witness:
  "set_cursorStopPosition oneLineIsValid (new_Position 5 0) (new_VimState ''x'')
     = Inr \<lparr>cursors = [cursorC],
            recordedState = new_RecordedState ''x'', macro = None,
            warnings = [InvalidCursorStopPosition (new_Position 5 0)]\<rparr>
   \<and> \<not> oneLineCursorIsValid cursorC
   \<and> set_cursors oneLineCursorIsValid Cursor_toString [cursorB, cursorC] (new_VimState ''x'')
     = \<lparr>cursors = [cursorB, cursorC],
        recordedState = new_RecordedState ''x'', macro = None,
        warnings = [InvalidCursorPosition cursorC]\<rparr>"
proof -
  have bc: "cursorB \<noteq> cursorC"
    by (simp add: cursorB_def cursorC_def new_Cursor_def new_Position_def)
  have i: "inj_on Cursor_toString (set [cursorB, cursorC])"
    using Cursor_toString_inj by (rule inj_on_subset) simp
  have valid: "oneLineCursorIsValid cursorB" "\<not> oneLineCursorIsValid cursorC"
    by (simp_all add: oneLineCursorIsValid_def oneLineIsValid_def cursorB_def cursorC_def
        new_Cursor_def new_Position_def)
  from bc i valid
    invalid_position_logged_and_stored
      [of "new_VimState ''x''" "new_Cursor (new_Position 0 0) (new_Position 0 0)" "[]"
          oneLineIsValid "new_Position 5 0" "[cursorB, cursorC]" Cursor_toString
          oneLineCursorIsValid cursorC]
  show ?thesis
    by (simp add: new_VimState_def new_Cursor_def new_Position_def withNewStop_def
        oneLineIsValid_def cursorC_def dedupFirstSeen_def)
qed

text \<open>
  Claim C3. Assigning the empty list to the \<open>cursors\<close> setter leaves the stored cursors
  (and all the state but the log) as they were and logs one warning; and every state
  reached from a new \<open>VimState\<close> through its cursor setters has at least one cursor.
\<close>

theorem cursors_never_empty:
  "set_cursors isValid toString [] s = s\<lparr>warnings := warnings s @ [EmptyCursorArray]\<rparr>
   \<and> cursors (set_cursors isValid toString [] s) = cursors s
   \<and> (reachable s \<longrightarrow> cursors s \<noteq> [])"
  by (simp add: set_cursors_def reachable_cursors_not_empty)

theorem cursors_never_empty_witness:
  "reachable (set_cursors (\<lambda>c. True) Cursor_toString [] (new_VimState ''x''))
   \<and> cursors (set_cursors (\<lambda>c. True) Cursor_toString [] (new_VimState ''x''))
       = [new_Cursor (new_Position 0 0) (new_Position 0 0)]
   \<and> cursors (set_cursors (\<lambda>c. True) Cursor_toString [] (new_VimState ''x'')) \<noteq> []"
proof -
  have r: "reachable (set_cursors (\<lambda>c. True) Cursor_toString [] (new_VimState ''x''))"
    by (rule reachable_cursors) (rule reachable_new)
  from r cursors_never_empty
         [of "\<lambda>c. True" Cursor_toString
             "set_cursors (\<lambda>c. True) Cursor_toString [] (new_VimState ''x'')"]
       cursors_never_empty [of "\<lambda>c. True" Cursor_toString "new_VimState ''x''"]
  show ?thesis by (simp add: new_VimState_def)
qed

text \<open>
  Claim C9. A non-empty list of cursors assigned to the \<open>cursors\<close> setter is stored
  with each distinct cursor once, in the order in which the cursors were first seen. The
  setter compares cursors by their string form: the claim holds for every string form
  that tells apart the assigned cursors that differ, and so for the string form modelled
  from the spec. Assigning the same cursor twice stores a single cursor, whatever the
  string form is.
\<close>

theorem cursors_deduplicated:
  assumes "v \<noteq> []"
  shows "(inj_on toString (set v) \<longrightarrow>
            cursors (set_cursors isValid toString v s) = dedupFirstSeen v
            \<and> distinct (cursors (set_cursors isValid toString v s))
            \<and> set (cursors (set_cursors isValid toString v s)) = set v)
       \<and> cursors (set_cursors isValid Cursor_toString v s) = dedupFirstSeen v
       \<and> cursors (set_cursors isValid toString [c, c] s) = [c]
       \<and> length (cursors (set_cursors isValid toString [c, c] s)) = 1"
proof -
  have general: "cursors (set_cursors isValid f v s) = dedupFirstSeen v"
    if "inj_on f (set v)" for f
    using assms that by (simp add: set_cursors_cursors fold_Map_set_dedup comp_def)
  have "inj_on Cursor_toString (set v)"
    using Cursor_toString_inj by (rule inj_on_subset) simp
  then have modelled: "cursors (set_cursors isValid Cursor_toString v s) = dedupFirstSeen v"
    by (rule general)
  have twice: "cursors (set_cursors isValid toString [c, c] s) = [c]"
    by (simp add: set_cursors_cursors)
  from general [of toString] modelled twice show ?thesis
    by (simp add: set_dedupFirstSeen distinct_dedupFirstSeen)
qed

theorem cursors_deduplicated_witness:
  "inj_on Cursor_toString (set [cursorA, cursorB, cursorA])
   \<and> cursors (set_cursors (\<lambda>c. True) Cursor_toString [cursorA, cursorB, cursorA]
        (new_VimState ''x'')) = [cursorA, cursorB]
   \<and> cursors (set_cursors (\<lambda>c. True) Cursor_toString [cursorA, cursorA]
        (new_VimState ''x'')) = [cursorA]"
proof -
  have a: "Cursor_toString cursorA = ''[[2, 3] | [2, 3]]''" by code_simp
  have b: "Cursor_toString cursorB = ''[[0, 0] | [0, 4]]''" by code_simp
  have ab: "cursorA \<noteq> cursorB"
    by (simp add: cursorA_def cursorB_def new_Cursor_def new_Position_def)
  have i: "inj_on Cursor_toString (set [cursorA, cursorB, cursorA])"
    by (simp add: inj_on_def a b)
  from i ab
    cursors_deduplicated
      [of "[cursorA, cursorB, cursorA]" Cursor_toString "\<lambda>c. True" "new_VimState ''x''" cursorA]
  show ?thesis
    by (simp add: dedupFirstSeen_def)
qed

section \<open>Macro recording\<close>






section \<open>The two versions of SneakHighlighter\<close>

lemma generateMarkersLoop_same:
  "generateMarkersLoop_v1 gen rs index markers = generateMarkersLoop_v2 gen rs index markers"
  by (induction rs arbitrary: index markers) (simp_all split: option.split)

text \<open>
  Claim C10. The two versions of \<open>SneakHighlighter\<close> agree on their marker logic: for
  every marker generator, every string of label targets, every list of ranges to
  highlight and every marker table to start from, \<open>generateMarkers\<close> builds the same
  table in both, and for every marker string \<open>getMarkPosition\<close> returns the same
  position or is undefined in both, on any table and so on the tables they build.
\<close>

theorem SneakHighlighter_versions_agree:
  "generateMarkers_v1 mg targets ranges markers = generateMarkers_v2 mg targets ranges markers
   \<and> getMarkPosition_v1 markers mk = getMarkPosition_v2 markers mk
   \<and> getMarkPosition_v1 (generateMarkers_v1 mg targets ranges markers) mk
       = getMarkPosition_v2 (generateMarkers_v2 mg targets ranges markers) mk"
  by (simp add: generateMarkers_v1_def generateMarkers_v2_def getMarkPosition_v1_def
      getMarkPosition_v2_def generateMarkersLoop_same)

end
